theory Spec2Isabelle
  imports Main "HOL-Library.Sublist"
begin

section \<open>Release changelog synthesis: a model of \<open>release_notes.py\<close>\<close>

text \<open>
  The theory embeds the functions of \<open>release_notes.py\<close> as HOL functions.
  A Python \<open>str\<close> is a \<open>string\<close> (a character outside ASCII is the bytes of its
  UTF-8 encoding); a JSON object received from the hosting API is a record
  with one field per key the program reads, a key whose value may be \<open>null\<close> (or that may be
  absent) being an \<open>option\<close>. A Python exception is a value of \<open>py_error\<close>, and a
  function that may raise returns \<open>py_error + 'a\<close>.
\<close>

subsection \<open>Strings\<close>

text \<open>
  \<open>str.lower\<close>, on the ASCII letters: \<open>A\<close> to \<open>Z\<close> become \<open>a\<close> to \<open>z\<close>, every other
  character is kept. (Cased letters outside ASCII are not modelled.)
\<close>

definition lower_char :: "char \<Rightarrow> char" where
  "lower_char c =
     (if 65 \<le> (of_char c :: nat) \<and> (of_char c :: nat) \<le> 90
      then char_of ((of_char c :: nat) + 32) else c)"

definition lower :: "string \<Rightarrow> string" where
  "lower s = map lower_char s"

text \<open>\<open>str.replace(old, new)\<close> for one-character \<open>old\<close> and \<open>new\<close>.\<close>

definition replace_char :: "char \<Rightarrow> char \<Rightarrow> string \<Rightarrow> string" where
  "replace_char old new s = map (\<lambda>c. if c = old then new else c) s"

text \<open>\<open>sep.join(xs)\<close>.\<close>

fun join :: "string \<Rightarrow> string list \<Rightarrow> string" where
  "join sep [] = []"
| "join sep [x] = x"
| "join sep (x # y # ys) = x @ sep @ join sep (y # ys)"

abbreviation nl :: string where
  "nl \<equiv> [CHR 0x0A]"

text \<open>\<open>str(n)\<close> for a natural number, as an f-string renders a length or a status code.\<close>

function str_nat :: "nat \<Rightarrow> string" where
  "str_nat n =
     (if n < 10 then [char_of (48 + n)]
      else str_nat (n div 10) @ [char_of (48 + n mod 10)])"
  by pat_completeness auto
termination
  by (relation "measure id") auto

declare str_nat.simps [simp del]

text \<open>
  The truth value of an optional string, as in \<open>if previous_tag:\<close> and
  \<open>r["name"] and ...\<close>: \<open>None\<close> and the empty string are false.
\<close>

fun truthy :: "string option \<Rightarrow> bool" where
  "truthy None = False"
| "truthy (Some s) = (s \<noteq> [])"

text \<open>An optional string inside an f-string: \<open>None\<close> is rendered as \<open>None\<close>.\<close>

fun fmt :: "string option \<Rightarrow> string" where
  "fmt None = ''None''"
| "fmt (Some s) = s"

subsection \<open>Exceptions\<close>

text \<open>
  The handlers of \<open>main\<close> tell \<open>ValueError\<close> from every other exception and print the
  exception's text, so an exception carries its text.
\<close>

datatype py_error =
    AttributeError string
  | ValueError string
  | OtherError string

fun str_of_error :: "py_error \<Rightarrow> string" where
  "str_of_error (AttributeError m) = m"
| "str_of_error (ValueError m) = m"
| "str_of_error (OtherError m) = m"

subsection \<open>Releases\<close>

record release =
  tag_name :: "string option"
  name :: "string option"
  body :: "string option"
  published_at :: "string option"

subsection \<open>\<open>sanitize_filename\<close>\<close>

definition sanitize_filename :: "string \<Rightarrow> string" where
  "sanitize_filename filename =
     replace_char (CHR 0x5C) (CHR ''_'') (replace_char (CHR ''/'') (CHR ''_'') filename)"

subsection \<open>\<open>filter_production_releases\<close>\<close>

text \<open>The exception of an attribute access on \<open>None\<close>.\<close>

definition quoted :: "string \<Rightarrow> string" where
  "quoted s = CHR 0x27 # s @ [CHR 0x27]"

definition none_has_no :: "string \<Rightarrow> py_error" where
  "none_has_no attr =
     AttributeError (quoted ''NoneType'' @ '' object has no attribute '' @ quoted attr)"

text \<open>
  The condition of the comprehension. \<open>r["tag_name"].lower()\<close> raises on \<open>None\<close>; the name
  and the body are tested for truth first (\<open>r["name"] and ...\<close>). Python's \<open>in\<close> on
  strings is \<^const>\<open>sublist\<close>.
\<close>

fun and_mentions :: "string option \<Rightarrow> bool" where
  "and_mentions None = False"
| "and_mentions (Some s) = (s \<noteq> [] \<and> sublist ''production'' (lower s))"

definition mentions_production :: "release \<Rightarrow> py_error + bool" where
  "mentions_production r =
     (case tag_name r of
        None \<Rightarrow> Inl (none_has_no ''lower'')
      | Some t \<Rightarrow>
          Inr (sublist ''production'' (lower t) \<or> and_mentions (name r) \<or> and_mentions (body r)))"

fun filter_production_releases :: "release list \<Rightarrow> py_error + release list" where
  "filter_production_releases [] = Inr []"
| "filter_production_releases (r # releases) =
     (case mentions_production r of
        Inl e \<Rightarrow> Inl e
      | Inr keep \<Rightarrow>
          (case filter_production_releases releases of
             Inl e \<Rightarrow> Inl e
           | Inr kept \<Rightarrow> Inr (if keep then r # kept else kept)))"

subsection \<open>The outside world and the trace of effects\<close>

text \<open>
  One file of a commit and one commit, as the compare and the single-commit endpoints
  return them: \<open>file.get('filename', '')\<close> and \<open>file.get('patch', '')\<close> allow both keys to
  be absent; \<open>message\<close> is \<open>commit['commit']['message']\<close> and \<open>author_name\<close> is
  \<open>commit['commit']['author']['name']\<close>; \<open>detailed_diff\<close> is the key that
  \<open>get_commits_between_tags\<close> adds.
\<close>

record file_change =
  filename :: "string option"
  patch :: "string option"

record commit =
  sha :: string
  message :: string
  author_name :: string
  detailed_diff :: "file_change list option"

record chat_message =
  role :: string
  content :: string

text \<open>A response of \<open>requests.get\<close>: its status code and its decoded body.\<close>

record 'a response =
  status_code :: nat
  json :: 'a

text \<open>
  What the program cannot decide itself is a parameter: the three endpoints of the hosting
  API (the releases endpoint by URL, page and page size; the compare and the single-commit
  endpoints by URL, the body of the latter being the value of its \<open>files\<close> key, if any),
  the text of the first choice of a chat completion, and Python's \<open>int\<close> on a string
  (\<open>None\<close> when it raises \<open>ValueError\<close>), and the date of the run as
  \<open>datetime.now().strftime('%Y-%m-%d')\<close> gives it. A request or a completion may raise.
\<close>

record world =
  get_releases :: "string \<Rightarrow> nat \<Rightarrow> nat \<Rightarrow> py_error + release list response"
  get_compare :: "string \<Rightarrow> py_error + commit list response"
  get_commit :: "string \<Rightarrow> py_error + file_change list option response"
  get_completion :: "chat_message list \<Rightarrow> py_error + string"
  int_of_str :: "string \<Rightarrow> int option"
  today :: string

text \<open>
  The effects of the program, in the order they happen: a line on the console, a prompt of
  \<open>input\<close>, a GET request (URL and query parameters), a chat completion request, and the
  file operations \<open>os.makedirs\<close>, \<open>open(path, "w")\<close> and \<open>f.write\<close>.
\<close>

datatype event =
    Print string
  | Prompt string
  | Get string "(string \<times> nat) list"
  | Complete "chat_message list"
  | MakeDirs string
  | OpenW string
  | Write string string

text \<open>A computation yields the trace of its effects and either an exception or a value.\<close>

type_synonym 'a io = "event list \<times> (py_error + 'a)"

definition ret :: "'a \<Rightarrow> 'a io" where
  "ret x = ([], Inr x)"

definition raise :: "py_error \<Rightarrow> 'a io" where
  "raise e = ([], Inl e)"

definition emit :: "event list \<Rightarrow> unit io" where
  "emit evs = (evs, Inr ())"

definition bind :: "'a io \<Rightarrow> ('a \<Rightarrow> 'b io) \<Rightarrow> 'b io" where
  "bind m f =
     (case m of
        (t, Inl e) \<Rightarrow> (t, Inl e)
      | (t, Inr x) \<Rightarrow> (case f x of (t', r) \<Rightarrow> (t @ t', r)))"

definition GITHUB_API_BASE :: string where
  "GITHUB_API_BASE = ''https://api.github.com/repos''"

text \<open>
  The three URLs the program builds with f-strings: \<open>{GITHUB_API_BASE}/{repository}/releases\<close>,
  \<open>{GITHUB_API_BASE}/{repository}/compare/{base_tag}...{head_tag}\<close> and
  \<open>{GITHUB_API_BASE}/{repository}/commits/{commit['sha']}\<close>.
\<close>

definition releases_url :: "string \<Rightarrow> string" where
  "releases_url repository = GITHUB_API_BASE @ ''/'' @ repository @ ''/releases''"

definition compare_url :: "string \<Rightarrow> string option \<Rightarrow> string option \<Rightarrow> string" where
  "compare_url repository base_tag head_tag =
     GITHUB_API_BASE @ ''/'' @ repository @ ''/compare/'' @ fmt base_tag @ ''...'' @ fmt head_tag"

definition commit_url :: "string \<Rightarrow> commit \<Rightarrow> string" where
  "commit_url repository c = GITHUB_API_BASE @ ''/'' @ repository @ ''/commits/'' @ sha c"

subsection \<open>\<open>fetch_releases\<close>\<close>

text \<open>
  The \<open>while True\<close> loop, with the page number, the releases gathered and the trace so far.
  Nothing bounds the number of pages, so the loop is a partial function: \<open>None\<close> is a run
  that never returns.
\<close>

partial_function (option) fetch_pages ::
  "world \<Rightarrow> string \<Rightarrow> nat \<Rightarrow> release list \<Rightarrow> event list \<Rightarrow> (release list) io option" where
  "fetch_pages w url page releases tr =
     (let tr' = tr @ [Get url [(''page'', page), (''per_page'', 100)]] in
      case get_releases w url page 100 of
        Inl e \<Rightarrow> Some (tr', Inl e)
      | Inr response \<Rightarrow>
          if status_code response \<noteq> 200
          then Some (tr' @ [Print (''Failed to fetch releases: '' @ str_nat (status_code response))],
                     Inr [])
          else if json response = [] then Some (tr', Inr releases)
          else fetch_pages w url (page + 1) (releases @ json response) tr')"

definition fetch_releases :: "world \<Rightarrow> string \<Rightarrow> (release list) io option" where
  "fetch_releases w repository =
     fetch_pages w (releases_url repository) 1 [] []"

subsection \<open>\<open>get_commits_between_tags\<close>\<close>

text \<open>The loop over the commits: one request each; only a 200 response sets the new key.\<close>

fun fetch_details :: "world \<Rightarrow> string \<Rightarrow> commit list \<Rightarrow> (commit list) io" where
  "fetch_details w repository [] = ret []"
| "fetch_details w repository (c # commits) =
     (let url = commit_url repository c in
      case get_commit w url of
        Inl e \<Rightarrow> ([Get url []], Inl e)
      | Inr commit_response \<Rightarrow>
          bind (emit [Get url []]) (\<lambda>_.
          bind (fetch_details w repository commits) (\<lambda>rest.
          ret ((if status_code commit_response = 200
                then c\<lparr>detailed_diff :=
                         Some (case json commit_response of None \<Rightarrow> [] | Some files \<Rightarrow> files)\<rparr>
                else c) # rest))))"

definition get_commits_between_tags ::
  "world \<Rightarrow> string \<Rightarrow> string option \<Rightarrow> string option \<Rightarrow> (commit list) io" where
  "get_commits_between_tags w repository base_tag head_tag =
     (let url = compare_url repository base_tag head_tag in
      case get_compare w url of
        Inl e \<Rightarrow> ([Get url []], Inl e)
      | Inr response \<Rightarrow>
          if status_code response \<noteq> 200
          then ([Get url [],
                 Print (''Failed to fetch commits between tags: ''
                        @ str_nat (status_code response))],
                Inr [])
          else bind (emit [Get url []]) (\<lambda>_. fetch_details w repository (json response)))"

subsection \<open>\<open>summarize_commit\<close>\<close>

definition commit_system_prompt :: string where
  "commit_system_prompt = join nl
     [''Please provide a concise, clear summary of the following commit in changelog format. '',
      ''Important guidelines:'',
      ''- Distinguish between actual bug fixes (issues in existing functionality) and QA-related fixes (issues found during testing of new features)'',
      ''- QA tickets (usually containing '' @ [CHR 0x27] @ ''QA-'' @ [CHR 0x27] @ '' or similar in commit messages) should be categorized as '' @ [CHR 0x27] @ ''Improvements'' @ [CHR 0x27] @ '' or '' @ [CHR 0x27] @ ''Features'' @ [CHR 0x27] @ '' since they'' @ [CHR 0x27] @ ''re enhancing new functionality'',
      ''- Only categorize as '' @ [CHR 0x27] @ ''Bug Fixes'' @ [CHR 0x27] @ '' if it'' @ [CHR 0x27] @ ''s fixing existing, previously working functionality'',
      ''- Focus on the impact and purpose of the changes from an end-user perspective'',
      ''- Include relevant technical details only if they'' @ [CHR 0x27] @ ''re important for understanding the change'']"

definition changelog_system_prompt :: string where
  "changelog_system_prompt = join nl
     [''Please create a comprehensive QA-focused changelog from the following commit summaries.'',
      '''',
      ''Organization guidelines:'',
      '''',
      ''1. High-Level Summary:'',
      ''   - Brief overview of the release'' @ [CHR 0x27] @ ''s major changes'',
      ''   - Key areas requiring focused testing'',
      ''   - Potential risk areas'',
      '''',
      ''2. Detailed Changes (categorized):'',
      ''   '' @ [CHR 0xF0, CHR 0x9F, CHR 0x9A, CHR 0x80] @ '' New Features'',
      ''   - List each new feature'',
      ''   - Specify what functionality needs to be tested'',
      ''   - Note any dependencies or related features that could be impacted'',
      ''   '',
      ''   '' @ [CHR 0xE2, CHR 0x9C, CHR 0xA8] @ '' Improvements & Enhancements'',
      ''   - Detail improvements to existing features'',
      ''   - Highlight changes in user workflows or UI'',
      ''   - Note any performance improvements that need verification'',
      ''   '',
      ''   '' @ [CHR 0xF0, CHR 0x9F, CHR 0x90, CHR 0x9B] @ '' Bug Fixes'',
      ''   - Describe each fix and its impact'',
      ''   - Specify regression testing needs'',
      ''   - Note related features that should be re-tested'',
      ''   '',
      ''   '' @ [CHR 0xF0, CHR 0x9F, CHR 0x94, CHR 0xA7] @ '' Technical Changes'',
      ''   - List infrastructure or system-level changes'',
      ''   - Note any performance or security implications'',
      ''   - Highlight areas needing load/stress testing'',
      '''',
      ''3. Testing Focus Areas:'',
      ''   - Critical user paths affected'',
      ''   - Cross-browser/device testing requirements'',
      ''   - API endpoints or services modified'',
      ''   - Database changes or data migrations'',
      ''   - Performance-sensitive areas'',
      ''   - Security considerations'',
      '''',
      ''4. Integration Points:'',
      ''   - List affected third-party integrations'',
      ''   - Note any API changes or versioning'',
      ''   - Highlight cross-service dependencies'',
      '''',
      ''Make it detailed and structured, focusing on what QA needs to verify and test thoroughly.'']"

text \<open>The loop that prepares the diff information, and the text made of it.\<close>

fun diff_summary :: "file_change list \<Rightarrow> string list" where
  "diff_summary [] = []"
| "diff_summary (file # files) =
     (let fname = (case filename file of None \<Rightarrow> [] | Some n \<Rightarrow> n);
          changes = (case patch file of None \<Rightarrow> [] | Some p \<Rightarrow> p)
      in if changes \<noteq> [] then (''File: '' @ fname @ nl @ changes) # diff_summary files
         else diff_summary files)"

definition diff_text :: "commit \<Rightarrow> string" where
  "diff_text c =
     (let ds = diff_summary (case detailed_diff c of None \<Rightarrow> [] | Some files \<Rightarrow> files)
      in if ds \<noteq> [] then join (nl @ nl) ds else ''No detailed changes available'')"

definition commit_messages :: "commit \<Rightarrow> chat_message list" where
  "commit_messages c =
     [\<lparr>role = ''system'', content = commit_system_prompt\<rparr>,
      \<lparr>role = ''user'',
       content = ''Commit message: '' @ message c @ nl @ ''Author: '' @ author_name c
                 @ nl @ nl @ ''Code Changes:'' @ nl @ diff_text c\<rparr>]"

definition summarize_commit :: "world \<Rightarrow> commit \<Rightarrow> string io" where
  "summarize_commit w c =
     (let messages = commit_messages c in ([Complete messages], get_completion w messages))"

subsection \<open>\<open>generate_release_changelog\<close>\<close>

text \<open>The loop \<open>for i, commit in enumerate(commits, 1)\<close>, \<open>n\<close> being \<open>len(commits)\<close>.\<close>

fun summarize_all :: "world \<Rightarrow> nat \<Rightarrow> nat \<Rightarrow> commit list \<Rightarrow> (string list) io" where
  "summarize_all w n i [] = ret []"
| "summarize_all w n i (c # commits) =
     bind (emit [Print (''Processing commit '' @ str_nat i @ ''/'' @ str_nat n)]) (\<lambda>_.
     bind (summarize_commit w c) (\<lambda>summary.
     bind (summarize_all w n (i + 1) commits) (\<lambda>rest.
     ret (summary # rest))))"

definition changelog_messages :: "string list \<Rightarrow> chat_message list" where
  "changelog_messages commit_summaries =
     [\<lparr>role = ''system'', content = changelog_system_prompt\<rparr>,
      \<lparr>role = ''user'', content = join nl commit_summaries\<rparr>]"

definition generate_release_changelog ::
  "world \<Rightarrow> string \<Rightarrow> release \<Rightarrow> string option \<Rightarrow> string io" where
  "generate_release_changelog w repository current_release previous_tag =
     bind (get_commits_between_tags w repository previous_tag (tag_name current_release))
       (\<lambda>commits.
     bind (emit [Print (nl @ ''Analyzing '' @ str_nat (length commits) @ '' commits...'')]) (\<lambda>_.
     bind (summarize_all w (length commits) 1 commits) (\<lambda>commit_summaries.
     let messages = changelog_messages commit_summaries
     in ([Complete messages], get_completion w messages))))"

subsection \<open>The selection loops of \<open>main\<close>\<close>

text \<open>
  \<open>sanitize_filename(release['tag_name'])\<close>: on \<open>None\<close> the call of \<open>replace\<close> raises.
\<close>

definition sanitize_tag :: "string option \<Rightarrow> string io" where
  "sanitize_tag tag =
     (case tag of
        None \<Rightarrow> raise (none_has_no ''replace'')
      | Some t \<Rightarrow> ret (sanitize_filename t))"

text \<open>\<open>int(selection)\<close>; the text of the exception is never printed.\<close>

definition parse_int :: "world \<Rightarrow> string \<Rightarrow> int io" where
  "parse_int w s =
     (case int_of_str w s of
        None \<Rightarrow> raise (ValueError ''invalid literal for int() with base 10'')
      | Some n \<Rightarrow> ret n)"

text \<open>
  The body of the \<open>try\<close> of single release mode, after the test for \<open>q\<close>. The file path is
  \<open>os.path.join("changelogs", ...)\<close> with the separator \<open>/\<close>.
\<close>

definition single_body :: "world \<Rightarrow> string \<Rightarrow> release list \<Rightarrow> string \<Rightarrow> unit io" where
  "single_body w repository production_releases selection =
     bind (parse_int w selection) (\<lambda>n.
     let idx = n - 1 in
     if 0 \<le> idx \<and> idx < int (length production_releases) then
       let release = production_releases ! nat idx;
           previous_tag =
             (if idx + 1 < int (length production_releases)
              then tag_name (production_releases ! nat (idx + 1)) else None)
       in
       bind (emit [Print (nl @ ''Processing release: '' @ fmt (tag_name release))]) (\<lambda>_.
       if truthy previous_tag then
         bind (generate_release_changelog w repository release previous_tag) (\<lambda>changelog.
         bind (emit [Print (nl @ ''Changelog:''), Print changelog, MakeDirs ''changelogs'']) (\<lambda>_.
         bind (sanitize_tag (tag_name release)) (\<lambda>safe_filename.
         let filepath = ''changelogs/'' @ ''changelog_'' @ safe_filename @ ''.md'' in
         emit [OpenW filepath,
               Write filepath (''# Changelog for '' @ fmt (tag_name release) @ nl @ nl),
               Write filepath (''Release Date: '' @ fmt (published_at release) @ nl @ nl),
               Write filepath changelog,
               Print (nl @ ''Changelog saved to: '' @ filepath)])))
       else
         emit [Print ''This is the oldest release, no previous release to compare with.''])
     else
       emit [Print ''Invalid selection. Please try again.''])"

text \<open>The two \<open>except\<close> clauses of a loop; \<open>what\<close> is \<open>release\<close> or \<open>comparison\<close>.\<close>

fun handlers :: "string \<Rightarrow> py_error + unit \<Rightarrow> event list" where
  "handlers what (Inr _) = []"
| "handlers what (Inl (ValueError m)) =
     [Print (''Invalid input. Please enter a number or '' @ quoted ''q'' @ '' to quit.'')]"
| "handlers what (Inl e) = [Print (''Error processing '' @ what @ '': '' @ str_of_error e)]"

text \<open>How a run of a loop over the given lines of input ends: by \<open>q\<close>, or out of input.\<close>

datatype loop_end = Quit | Starved

text \<open>
  Single release mode. Each turn of \<open>while True\<close> reads one line; the model stops where the
  lines end.
\<close>

definition single_prompt :: string where
  "single_prompt = nl @ ''Enter the number of the release to process (or ''
                   @ quoted ''q'' @ '' to quit): ''"

fun single_loop :: "world \<Rightarrow> string \<Rightarrow> release list \<Rightarrow> string list \<Rightarrow> event list \<times> loop_end" where
  "single_loop w repository production_releases [] = ([Prompt single_prompt], Starved)"
| "single_loop w repository production_releases (selection # inputs) =
     (if lower selection = ''q'' then ([Prompt single_prompt], Quit)
      else
        case single_body w repository production_releases selection of (t, r) \<Rightarrow>
        case single_loop w repository production_releases inputs of (t', e) \<Rightarrow>
          (Prompt single_prompt # t @ handlers ''release'' r @ t', e))"

text \<open>The body of the \<open>try\<close> of comparison mode, after both lines are read.\<close>

definition compare_body ::
  "world \<Rightarrow> string \<Rightarrow> release list \<Rightarrow> string \<Rightarrow> string \<Rightarrow> unit io" where
  "compare_body w repository production_releases newer_release older_release =
     bind (parse_int w newer_release) (\<lambda>n.
     let newer_idx = n - 1 in
     bind (parse_int w older_release) (\<lambda>m.
     let older_idx = m - 1 in
     if 0 \<le> newer_idx \<and> newer_idx < int (length production_releases)
        \<and> 0 \<le> older_idx \<and> older_idx < int (length production_releases) then
       if newer_idx \<ge> older_idx then
         emit [Print ''Error: First release must be newer than second release.'']
       else
         let newer = production_releases ! nat newer_idx;
             older = production_releases ! nat older_idx
         in
         bind (emit [Print (nl @ ''Comparing changes between:''),
                     Print (''Newer: '' @ fmt (tag_name newer)),
                     Print (''Older: '' @ fmt (tag_name older))]) (\<lambda>_.
         bind (generate_release_changelog w repository newer (tag_name older)) (\<lambda>changelog.
         bind (emit [Print (nl @ ''Changelog:''), Print changelog, MakeDirs ''changelogs'']) (\<lambda>_.
         bind (sanitize_tag (tag_name older)) (\<lambda>safe_older.
         bind (sanitize_tag (tag_name newer)) (\<lambda>safe_newer.
         let safe_filename = ''comparison_'' @ safe_older @ ''_to_'' @ safe_newer;
             filepath = ''changelogs/'' @ safe_filename @ ''.md''
         in
         emit [OpenW filepath,
               Write filepath (''# Changes from '' @ fmt (tag_name older) @ '' to ''
                               @ fmt (tag_name newer) @ nl @ nl),
               Write filepath (''Comparison Date: '' @ today w @ nl @ nl),
               Write filepath changelog,
               Print (nl @ ''Changelog saved to: '' @ filepath)])))))
     else
       emit [Print ''Invalid selection. Please try again.'']))"

definition newer_prompt :: string where
  "newer_prompt = ''Enter the number of the NEWER release (or '' @ quoted ''q'' @ '' to quit): ''"

definition older_prompt :: string where
  "older_prompt = ''Enter the number of the OLDER release: ''"

text \<open>Comparison mode. Each turn reads one line, and a second one unless the first is \<open>q\<close>.\<close>

fun compare_loop :: "world \<Rightarrow> string \<Rightarrow> release list \<Rightarrow> string list \<Rightarrow> event list \<times> loop_end" where
  "compare_loop w repository production_releases [] =
     ([Print (nl @ ''Select two releases to compare:''), Prompt newer_prompt], Starved)"
| "compare_loop w repository production_releases [newer_release] =
     (if lower newer_release = ''q''
      then ([Print (nl @ ''Select two releases to compare:''), Prompt newer_prompt], Quit)
      else ([Print (nl @ ''Select two releases to compare:''), Prompt newer_prompt,
             Prompt older_prompt], Starved))"
| "compare_loop w repository production_releases (newer_release # older_release # inputs) =
     (if lower newer_release = ''q''
      then ([Print (nl @ ''Select two releases to compare:''), Prompt newer_prompt], Quit)
      else
        case compare_body w repository production_releases newer_release older_release
        of (t, r) \<Rightarrow>
        case compare_loop w repository production_releases inputs of (t', e) \<Rightarrow>
          ([Print (nl @ ''Select two releases to compare:''), Prompt newer_prompt,
            Prompt older_prompt] @ t @ handlers ''comparison'' r @ t', e))"

subsection \<open>The specification's notions\<close>

text \<open>
  A string contains the marker case-insensitively when some contiguous part of it is
  \<open>production\<close> up to the case of its letters; a release is a production release when
  its tag, its name or its body does.
\<close>

definition has_marker :: "string \<Rightarrow> bool" where
  "has_marker s \<longleftrightarrow> (\<exists>t. sublist t s \<and> lower t = ''production'')"

definition is_production :: "release \<Rightarrow> bool" where
  "is_production r \<longleftrightarrow>
     (\<exists>t. tag_name r = Some t \<and> has_marker t)
     \<or> (\<exists>n. name r = Some n \<and> has_marker n)
     \<or> (\<exists>b. body r = Some b \<and> has_marker b)"

text \<open>The characters that \<open>sanitize_filename\<close> does not tell apart.\<close>

definition separator_like :: "char \<Rightarrow> bool" where
  "separator_like c \<longleftrightarrow> c = CHR ''/'' \<or> c = CHR 0x5C \<or> c = CHR ''_''"

text \<open>
  The files of a commit as \<open>summarize_commit\<close> reads them (a commit without the
  \<open>detailed_diff\<close> key has none), the files that carry a non-empty patch, and the entry
  that one such file contributes to the diff text.
\<close>

definition files_of :: "commit \<Rightarrow> file_change list" where
  "files_of c = (case detailed_diff c of None \<Rightarrow> [] | Some files \<Rightarrow> files)"

definition has_patch :: "file_change \<Rightarrow> bool" where
  "has_patch f \<longleftrightarrow> (\<exists>p. patch f = Some p \<and> p \<noteq> [])"

definition file_entry :: "file_change \<Rightarrow> string" where
  "file_entry f =
     ''File: '' @ (case filename f of None \<Rightarrow> [] | Some n \<Rightarrow> n) @ nl
     @ (case patch f of None \<Rightarrow> [] | Some p \<Rightarrow> p)"

text \<open>
  One request for a page of releases, the items that the service answers with, and the
  pages that keep the pagination going: answered with status 200 and at least one item.
\<close>

definition page_request :: "string \<Rightarrow> nat \<Rightarrow> event" where
  "page_request url p = Get url [(''page'', p), (''per_page'', 100)]"

definition page_items :: "world \<Rightarrow> string \<Rightarrow> nat \<Rightarrow> release list" where
  "page_items w url p = (case get_releases w url p 100 of Inl e \<Rightarrow> [] | Inr r \<Rightarrow> json r)"

definition full_page :: "world \<Rightarrow> string \<Rightarrow> nat \<Rightarrow> bool" where
  "full_page w url p \<longleftrightarrow>
     (\<exists>r. get_releases w url p 100 = Inr r \<and> status_code r = 200 \<and> json r \<noteq> [])"

text \<open>
  What the loop over the commits of a range does to one commit: the files of the detail
  response are attached when its status is 200, and the commit is left as it was otherwise.
\<close>

definition with_details :: "world \<Rightarrow> string \<Rightarrow> commit \<Rightarrow> commit" where
  "with_details w repository c =
     (case get_commit w (commit_url repository c) of
        Inl e \<Rightarrow> c
      | Inr r \<Rightarrow>
          if status_code r = 200
          then c\<lparr>detailed_diff := Some (case json r of None \<Rightarrow> [] | Some files \<Rightarrow> files)\<rparr>
          else c)"

subsection \<open>A small repository\<close>

text \<open>
  Two production releases, the newest first, with two commits between them. The releases
  endpoint answers its first page and fails with status 500 afterwards; the detail request
  of the first commit is answered, that of every other commit gives status 404.
\<close>

definition example_releases :: "release list" where
  "example_releases =
     [\<lparr>tag_name = Some ''v2.0-production'', name = None, body = None,
       published_at = Some ''2024-02-01T00:00:00Z''\<rparr>,
      \<lparr>tag_name = Some ''v1.0-production'', name = None, body = None,
       published_at = Some ''2024-01-01T00:00:00Z''\<rparr>]"

definition example_commits :: "commit list" where
  "example_commits =
     [\<lparr>sha = ''a1'', message = ''Add login'', author_name = ''Ana'', detailed_diff = None\<rparr>,
      \<lparr>sha = ''b2'', message = ''Fix typo'', author_name = ''Bo'', detailed_diff = None\<rparr>]"

definition example_world :: world where
  "example_world =
     \<lparr>get_releases = (\<lambda>url page per_page.
        if page = 1 then Inr \<lparr>status_code = 200, json = example_releases\<rparr>
        else Inr \<lparr>status_code = 500, json = []\<rparr>),
      get_compare = (\<lambda>url.
        if url = compare_url ''o/r'' (Some ''v1.0-production'') (Some ''v2.0-production'')
        then Inr \<lparr>status_code = 200, json = example_commits\<rparr>
        else Inr \<lparr>status_code = 200, json = []\<rparr>),
      get_commit = (\<lambda>url.
        if url = commit_url ''o/r'' (example_commits ! 0)
        then Inr \<lparr>status_code = 200,
                  json = Some [\<lparr>filename = Some ''a.py'', patch = Some ''+x''\<rparr>]\<rparr>
        else Inr \<lparr>status_code = 404, json = None\<rparr>),
      get_completion = (\<lambda>messages. Inr ''Summary''),
      int_of_str = (\<lambda>s. if s = ''1'' then Some 1 else if s = ''2'' then Some 2 else None),
      today = ''2025-01-01''\<rparr>"

section \<open>Properties\<close>

subsection \<open>The release filter\<close>

lemma sublist_map_iff: "sublist p (map f s) \<longleftrightarrow> (\<exists>t. sublist t s \<and> map f t = p)"
proof
  assume "sublist p (map f s)"
  then obtain a b where ab: "map f s = a @ p @ b" by (auto simp: sublist_def)
  let ?t = "take (length p) (drop (length a) s)"
  have "map f ?t = take (length p) (drop (length a) (map f s))"
    by (simp only: take_map drop_map)
  also have "\<dots> = p" by (simp add: ab)
  finally have "map f ?t = p" .
  moreover have "sublist ?t s"
    by (meson sublist_drop sublist_take sublist_order.order_trans)
  ultimately have "sublist ?t s \<and> map f ?t = p" by simp
  then show "\<exists>t. sublist t s \<and> map f t = p" by blast
next
  assume "\<exists>t. sublist t s \<and> map f t = p"
  then show "sublist p (map f s)" using map_mono_sublist by blast
qed

lemma has_marker_lower: "has_marker s \<longleftrightarrow> sublist ''production'' (lower s)"
  unfolding has_marker_def lower_def by (simp only: sublist_map_iff)

lemma and_mentions_iff: "and_mentions x \<longleftrightarrow> (\<exists>s. x = Some s \<and> has_marker s)"
proof (cases x)
  case None then show ?thesis by simp
next
  case (Some s)
  have "sublist ''production'' (lower s) \<Longrightarrow> s \<noteq> []" by (auto simp: lower_def)
  with Some show ?thesis by (auto simp only: and_mentions.simps has_marker_lower option.inject)
qed

lemma mentions_production_tagged:
  "tag_name r = Some t \<Longrightarrow> mentions_production r = Inr (is_production r)"
  by (simp add: mentions_production_def is_production_def and_mentions_iff has_marker_lower
           del: and_mentions.simps)

lemma filter_production_releases_tagged:
  "\<forall>r \<in> set rs. tag_name r \<noteq> None \<Longrightarrow>
   filter_production_releases rs = Inr (filter is_production rs)"
proof (induction rs)
  case Nil show ?case by simp
next
  case (Cons r rs)
  then obtain t where "tag_name r = Some t" by auto
  then have "mentions_production r = Inr (is_production r)" by (rule mentions_production_tagged)
  with Cons show ?case by simp
qed

text \<open>
  C7. On a list of releases whose tags are strings, \<open>filter_production_releases\<close> returns
  exactly the releases whose tag, name or body contains \<open>production\<close> case-insensitively,
  in the order of the input: the result is a subsequence of the input. The function is a
  list comprehension that assigns nothing, so it is a function of its argument alone.
\<close>

theorem filter_production_releases_exact:
  assumes "\<forall>r \<in> set rs. tag_name r \<noteq> None"
  shows "filter_production_releases rs = Inr (filter is_production rs)
         \<and> subseq (filter is_production rs) rs"
  using assms by (simp add: filter_production_releases_tagged)

theorem filter_production_releases_exact_witness:
  "filter is_production
     [\<lparr>tag_name = Some ''v2.0-production'', name = None, body = None, published_at = None\<rparr>,
      \<lparr>tag_name = Some ''v0.9-beta'', name = Some ''Beta'', body = Some [], published_at = None\<rparr>,
      \<lparr>tag_name = Some ''v1.0'', name = None, body = Some ''To PRODUCTION'', published_at = None\<rparr>]
   = [\<lparr>tag_name = Some ''v2.0-production'', name = None, body = None, published_at = None\<rparr>,
      \<lparr>tag_name = Some ''v1.0'', name = None, body = Some ''To PRODUCTION'', published_at = None\<rparr>]"
proof -
  let ?rs =
    "[\<lparr>tag_name = Some ''v2.0-production'', name = None, body = None, published_at = None\<rparr>,
      \<lparr>tag_name = Some ''v0.9-beta'', name = Some ''Beta'', body = Some [], published_at = None\<rparr>,
      \<lparr>tag_name = Some ''v1.0'', name = None, body = Some ''To PRODUCTION'', published_at = None\<rparr>]"
  have tagged: "\<forall>r \<in> set ?rs. tag_name r \<noteq> None" by simp
  have run: "filter_production_releases ?rs = Inr [?rs ! 0, ?rs ! 2]"
    by code_simp
  from filter_production_releases_exact [OF tagged]
  have "filter_production_releases ?rs = Inr (filter is_production ?rs)" ..
  with run have "filter is_production ?rs = [?rs ! 0, ?rs ! 2]" by (simp only: sum.inject)
  then show ?thesis by simp
qed

text \<open>
  C8. Filtering is idempotent: filtering the list that \<open>filter_production_releases\<close>
  returned gives that list again (and where the first pass raises, there is no list to
  filter again).
\<close>

theorem filter_production_releases_idempotent:
  "(case filter_production_releases rs of
      Inl e \<Rightarrow> Inl e
    | Inr kept \<Rightarrow> filter_production_releases kept)
   = filter_production_releases rs"
proof (induction rs)
  case Nil show ?case by simp
next
  case (Cons r rs)
  show ?case
  proof (cases "mentions_production r")
    case (Inl e) then show ?thesis by simp
  next
    case keep: (Inr keep)
    show ?thesis
    proof (cases "filter_production_releases rs")
      case (Inl e) with keep show ?thesis by simp
    next
      case (Inr kept)
      with Cons have "filter_production_releases kept = Inr kept" by simp
      with Inr keep show ?thesis by simp
    qed
  qed
qed

text \<open>
  C10. A release whose name or body is \<open>None\<close> is tolerated, whatever the other fields
  are; a tag that is \<open>None\<close> is not: the filter returns a list exactly when every tag is a
  string, and raises the \<open>AttributeError\<close> of \<open>None.lower()\<close> otherwise.
\<close>

theorem filter_production_releases_null_tag:
  "(if \<forall>r \<in> set rs. tag_name r \<noteq> None
    then \<exists>kept. filter_production_releases rs = Inr kept
    else filter_production_releases rs = Inl (none_has_no ''lower''))"
proof (induction rs)
  case Nil show ?case by simp
next
  case (Cons r rs)
  show ?case
  proof (cases "tag_name r")
    case None then show ?thesis by (simp add: mentions_production_def)
  next
    case (Some t)
    then obtain keep where k: "mentions_production r = Inr keep"
      by (simp add: mentions_production_def)
    show ?thesis
    proof (cases "\<forall>r \<in> set rs. tag_name r \<noteq> None")
      case True
      with Cons obtain kept where "filter_production_releases rs = Inr kept" by auto
      with k True Some show ?thesis by simp
    next
      case False
      with Cons have "filter_production_releases rs = Inl (none_has_no ''lower'')" by auto
      with k False show ?thesis by auto
    qed
  qed
qed

theorem filter_production_releases_null_tag_witness:
  "(\<exists>kept. filter_production_releases
      [\<lparr>tag_name = Some ''v2.0'', name = None, body = None, published_at = None\<rparr>] = Inr kept)
   \<and> filter_production_releases
       [\<lparr>tag_name = Some ''v2.0-production'', name = None, body = None, published_at = None\<rparr>,
        \<lparr>tag_name = None, name = Some ''production'', body = None, published_at = None\<rparr>]
     = Inl (none_has_no ''lower'')"
  using filter_production_releases_null_tag
    [of "[\<lparr>tag_name = Some ''v2.0'', name = None, body = None, published_at = None\<rparr>]"]
    filter_production_releases_null_tag
    [of "[\<lparr>tag_name = Some ''v2.0-production'', name = None, body = None, published_at = None\<rparr>,
          \<lparr>tag_name = None, name = Some ''production'', body = None, published_at = None\<rparr>]"]
  by simp

subsection \<open>File names\<close>

lemma sanitize_filename_map:
  "sanitize_filename s = map (\<lambda>c. if separator_like c then CHR ''_'' else c) s"
  by (auto simp: sanitize_filename_def replace_char_def separator_like_def)

lemma sanitize_filename_eq_iff:
  "sanitize_filename a = sanitize_filename b \<longleftrightarrow>
   list_all2 (\<lambda>x y. x = y \<or> (separator_like x \<and> separator_like y)) a b"
proof (induction a arbitrary: b)
  case Nil then show ?case by (simp add: sanitize_filename_map)
next
  case (Cons x a)
  show ?case
  proof (cases b)
    case Nil then show ?thesis by (simp add: sanitize_filename_map)
  next
    case (Cons y b')
    have "(if separator_like x then CHR ''_'' else x) = (if separator_like y then CHR ''_'' else y)
          \<longleftrightarrow> x = y \<or> (separator_like x \<and> separator_like y)"
      by (auto simp: separator_like_def)
    with Cons Cons.IH[of b'] show ?thesis by (simp add: sanitize_filename_map)
  qed
qed

text \<open>
  C3, as the code has it. \<open>sanitize_filename\<close> is a function on all strings; its result
  contains neither \<open>/\<close> nor the backslash; and two tags get the same file name exactly when
  they have the same length and agree at every position where they do not both have one
  of \<open>/\<close>, backslash and \<open>_\<close>. So the function is injective on tags without these three
  characters, and not in general.
\<close>

theorem sanitize_filename_classes:
  "(\<forall>c \<in> set (sanitize_filename t). c \<noteq> CHR ''/'' \<and> c \<noteq> CHR 0x5C)
   \<and> (sanitize_filename a = sanitize_filename b \<longleftrightarrow>
        list_all2 (\<lambda>x y. x = y \<or> (separator_like x \<and> separator_like y)) a b)"
proof
  show "\<forall>c \<in> set (sanitize_filename t). c \<noteq> CHR ''/'' \<and> c \<noteq> CHR 0x5C"
    by (auto simp: sanitize_filename_map separator_like_def)
  show "sanitize_filename a = sanitize_filename b \<longleftrightarrow>
        list_all2 (\<lambda>x y. x = y \<or> (separator_like x \<and> separator_like y)) a b"
    by (rule sanitize_filename_eq_iff)
qed

theorem sanitize_filename_classes_witness:
  "sanitize_filename ''rel/1.0'' = ''rel_1.0''
   \<and> CHR ''/'' \<notin> set (sanitize_filename ''rel/1.0'')
   \<and> CHR 0x5C \<notin> set (sanitize_filename ''rel/1.0'')
   \<and> sanitize_filename ''rel/1.0'' \<noteq> sanitize_filename ''rel/1.1''"
  using sanitize_filename_classes [of "''rel/1.0''" "''rel/1.0''" "''rel/1.1''"]
  by (simp add: sanitize_filename_def replace_char_def separator_like_def)

text \<open>Two distinct tags, both valid names of git tags, with one file name.\<close>

theorem sanitize_filename_not_injective:
  "''rel/1.0'' \<noteq> ''rel_1.0'' \<and> sanitize_filename ''rel/1.0'' = sanitize_filename ''rel_1.0''"
  by (simp add: sanitize_filename_def replace_char_def)

subsection \<open>The diff text of a commit\<close>

lemma diff_summary_patched: "diff_summary files = map file_entry (filter has_patch files)"
  by (induction files) (auto simp: has_patch_def file_entry_def Let_def split: option.splits)

text \<open>
  C5. The diff text of a commit is the literal \<open>No detailed changes available\<close> when
  none of its files has a non-empty patch; otherwise it is made of the entries of the
  patched files alone, in the order of the files, separated by an empty line. This text is
  the last part of the user message of the one completion request that
  \<open>summarize_commit\<close> makes.
\<close>

theorem diff_text_patched:
  "diff_text c =
     (if filter has_patch (files_of c) = [] then ''No detailed changes available''
      else join (nl @ nl) (map file_entry (filter has_patch (files_of c))))
   \<and> summarize_commit w c = ([Complete (commit_messages c)], get_completion w (commit_messages c))
   \<and> map content (commit_messages c) =
       [commit_system_prompt,
        ''Commit message: '' @ message c @ nl @ ''Author: '' @ author_name c
        @ nl @ nl @ ''Code Changes:'' @ nl @ diff_text c]"
  by (simp add: diff_text_def diff_summary_patched files_of_def summarize_commit_def
        commit_messages_def Let_def)

theorem diff_text_patched_witness:
  "diff_text \<lparr>sha = ''a1'', message = ''m'', author_name = ''n'',
      detailed_diff = Some [\<lparr>filename = Some ''a.py'', patch = Some ''+x''\<rparr>,
                            \<lparr>filename = Some ''b.png'', patch = None\<rparr>,
                            \<lparr>filename = Some ''c.py'', patch = Some ''-y''\<rparr>]\<rparr>
     = ''File: a.py'' @ nl @ ''+x'' @ nl @ nl @ ''File: c.py'' @ nl @ ''-y''
   \<and> diff_text \<lparr>sha = ''a2'', message = ''m'', author_name = ''n'',
      detailed_diff = Some [\<lparr>filename = Some ''b.png'', patch = None\<rparr>,
                            \<lparr>filename = Some ''d.bin'', patch = Some []\<rparr>]\<rparr>
     = ''No detailed changes available''"
  using diff_text_patched [of "\<lparr>sha = ''a1'', message = ''m'', author_name = ''n'',
      detailed_diff = Some [\<lparr>filename = Some ''a.py'', patch = Some ''+x''\<rparr>,
                            \<lparr>filename = Some ''b.png'', patch = None\<rparr>,
                            \<lparr>filename = Some ''c.py'', patch = Some ''-y''\<rparr>]\<rparr>"]
    diff_text_patched [of "\<lparr>sha = ''a2'', message = ''m'', author_name = ''n'',
      detailed_diff = Some [\<lparr>filename = Some ''b.png'', patch = None\<rparr>,
                            \<lparr>filename = Some ''d.bin'', patch = Some []\<rparr>]\<rparr>"]
  by (simp add: files_of_def has_patch_def file_entry_def)

subsection \<open>Pagination of the releases\<close>

lemma fetch_pages_run:
  assumes "\<forall>q \<in> {p..<p + k}. full_page w url q"
      and "get_releases w url (p + k) 100 = Inr r"
      and "status_code r \<noteq> 200 \<or> json r = []"
  shows "fetch_pages w url p acc tr =
           Some (tr @ map (page_request url) [p..<p + k + 1]
                 @ (if status_code r \<noteq> 200
                    then [Print (''Failed to fetch releases: '' @ str_nat (status_code r))]
                    else []),
                 Inr (if status_code r \<noteq> 200 then []
                      else acc @ concat (map (page_items w url) [p..<p + k])))"
  using assms
proof (induction k arbitrary: p acc tr)
  case 0
  then show ?case
    by (subst fetch_pages.simps) (auto simp: page_request_def Let_def)
next
  case (Suc k)
  from Suc.prems(1) have "full_page w url p" by simp
  then obtain r0 where r0: "get_releases w url p 100 = Inr r0" "status_code r0 = 200"
    "json r0 \<noteq> []" by (auto simp: full_page_def)
  have items: "page_items w url p = json r0" by (simp add: page_items_def r0)
  have step: "fetch_pages w url p acc tr =
      fetch_pages w url (p + 1) (acc @ json r0) (tr @ [page_request url p])"
    by (subst fetch_pages.simps) (simp add: r0 page_request_def Let_def)
  have rest: "\<forall>q \<in> {p + 1..<p + 1 + k}. full_page w url q" using Suc.prems(1) by simp
  have last: "get_releases w url (p + 1 + k) 100 = Inr r" using Suc.prems(2) by simp
  have upt1: "[p..<p + Suc k + 1] = p # [p + 1..<p + 1 + k + 1]"
    by (simp add: upt_conv_Cons)
  have upt2: "[p..<p + Suc k] = p # [p + 1..<p + 1 + k]"
    by (simp add: upt_conv_Cons)
  show ?case
    unfolding step Suc.IH [OF rest last Suc.prems(3)] upt1 upt2
    by (simp add: items)
qed

lemma str_nat_500: "str_nat 500 = ''500''"
  by code_simp

text \<open>
  C4. When the pages \<open>1\<close> to \<open>k\<close> are answered with status 200 and items, and
  page \<open>k + 1\<close> is answered either without items or with another status,
  \<open>fetch_releases\<close> returns after requesting exactly the pages \<open>1\<close> to
  \<open>k + 1\<close>, each of size 100. If the last status is 200 the result is the
  concatenation of the pages in order; otherwise the failure is printed and the result is
  the empty list, whatever the earlier pages held, which is also the result for a
  repository without releases.
\<close>

theorem fetch_releases_pages:
  assumes "\<forall>p \<in> {1..k}. full_page w (releases_url repository) p"
      and "get_releases w (releases_url repository) (Suc k) 100 = Inr r"
      and "status_code r \<noteq> 200 \<or> json r = []"
  shows "fetch_releases w repository =
           Some (map (page_request (releases_url repository)) [1..<k + 2]
                 @ (if status_code r \<noteq> 200
                    then [Print (''Failed to fetch releases: '' @ str_nat (status_code r))]
                    else []),
                 Inr (if status_code r \<noteq> 200 then []
                      else concat (map (page_items w (releases_url repository)) [1..<Suc k])))"
proof -
  have a: "\<forall>q \<in> {1..<1 + k}. full_page w (releases_url repository) q"
    using assms(1) by auto
  have b: "get_releases w (releases_url repository) (1 + k) 100 = Inr r"
    using assms(2) by simp
  from fetch_pages_run [OF a b assms(3), of "[]" "[]"] show ?thesis
    by (simp add: fetch_releases_def)
qed

theorem fetch_releases_pages_witness:
  "fetch_releases example_world ''o/r'' =
     Some ([page_request (releases_url ''o/r'') 1, page_request (releases_url ''o/r'') 2,
            Print ''Failed to fetch releases: 500''], Inr [])
   \<and> fetch_releases
       (example_world\<lparr>get_releases := \<lambda>url page per_page. Inr \<lparr>status_code = 200, json = []\<rparr>\<rparr>)
       ''o/r''
     = Some ([page_request (releases_url ''o/r'') 1], Inr [])"
proof -
  let ?bad = "\<lparr>status_code = 500, json = [] :: release list\<rparr>"
  let ?none = "\<lparr>status_code = 200, json = [] :: release list\<rparr>"
  let ?w = "example_world\<lparr>get_releases := \<lambda>url page per_page. Inr ?none\<rparr>"
  have a1: "\<forall>p \<in> {1..1}. full_page example_world (releases_url ''o/r'') p"
    by (simp add: full_page_def example_world_def example_releases_def)
  have a2: "get_releases example_world (releases_url ''o/r'') (Suc 1) 100 = Inr ?bad"
    by (simp add: example_world_def)
  have a3: "status_code ?bad \<noteq> 200 \<or> json ?bad = []" by simp
  have b1: "\<forall>p \<in> {1..0}. full_page ?w (releases_url ''o/r'') p" by simp
  have b2: "get_releases ?w (releases_url ''o/r'') (Suc 0) 100 = Inr ?none" by simp
  have b3: "status_code ?none \<noteq> 200 \<or> json ?none = []" by simp
  have u1: "[1..<Suc (Suc (Suc 0))] = [1, 2]" by (simp add: upt_conv_Cons)
  show ?thesis
    using fetch_releases_pages [OF a1 a2 a3] fetch_releases_pages [OF b1 b2 b3]
    by (simp add: str_nat_500 u1 numeral_2_eq_2)
qed

subsection \<open>Commits whose details are not available\<close>

lemma fetch_details_answered:
  "\<forall>c \<in> set cs. \<exists>r. get_commit w (commit_url repository c) = Inr r \<Longrightarrow>
   fetch_details w repository cs =
     (map (\<lambda>c. Get (commit_url repository c) []) cs, Inr (map (with_details w repository) cs))"
proof (induction cs)
  case Nil show ?case by (simp add: ret_def)
next
  case (Cons c cs)
  then obtain r where r: "get_commit w (commit_url repository c) = Inr r" by auto
  from Cons have IH: "fetch_details w repository cs =
     (map (\<lambda>c. Get (commit_url repository c) []) cs, Inr (map (with_details w repository) cs))"
    by simp
  show ?case
    by (simp add: Let_def r IH bind_def emit_def ret_def with_details_def)
qed

lemma get_commits_answered:
  assumes "get_compare w (compare_url repository base_tag head_tag) = Inr resp"
      and "status_code resp = 200"
      and "\<forall>c \<in> set (json resp). \<exists>r. get_commit w (commit_url repository c) = Inr r"
  shows "get_commits_between_tags w repository base_tag head_tag =
           (Get (compare_url repository base_tag head_tag) []
              # map (\<lambda>c. Get (commit_url repository c) []) (json resp),
            Inr (map (with_details w repository) (json resp)))"
  unfolding get_commits_between_tags_def Let_def
  by (simp add: assms(1,2) fetch_details_answered [OF assms(3)] bind_def emit_def)

text \<open>
  C9. A commit of the range whose detail request is answered with a status other than 200
  stays at its position in the returned list, unchanged and so without
  \<open>detailed_diff\<close>. \<open>summarize_commit\<close> on it makes its completion request with the
  fallback diff text and fails only if that request does; the messages are those of the
  same commit with any list of files none of which has a patch.
\<close>

theorem failed_detail_keeps_commit:
  assumes "get_compare w (compare_url repository base_tag head_tag) = Inr resp"
      and "status_code resp = 200"
      and "\<forall>c \<in> set (json resp). \<exists>r. get_commit w (commit_url repository c) = Inr r"
      and "i < length (json resp)"
      and "get_commit w (commit_url repository (json resp ! i)) = Inr r"
      and "status_code r \<noteq> 200"
      and "detailed_diff (json resp ! i) = None"
  shows "\<exists>t commits.
           get_commits_between_tags w repository base_tag head_tag = (t, Inr commits)
           \<and> length commits = length (json resp)
           \<and> commits ! i = json resp ! i
           \<and> detailed_diff (commits ! i) = None
           \<and> diff_text (commits ! i) = ''No detailed changes available''
           \<and> summarize_commit w (commits ! i) =
               ([Complete (commit_messages (commits ! i))],
                get_completion w (commit_messages (commits ! i)))
           \<and> (\<forall>files. filter has_patch files = [] \<longrightarrow>
                commit_messages (commits ! i) =
                commit_messages ((commits ! i)\<lparr>detailed_diff := Some files\<rparr>))"
proof -
  let ?commits = "map (with_details w repository) (json resp)"
  have same: "?commits ! i = json resp ! i"
    using assms(4,5,6) by (simp add: with_details_def)
  have none: "diff_text (json resp ! i) = ''No detailed changes available''"
    using assms(7) by (simp add: diff_text_def)
  have unpatched: "commit_messages (json resp ! i) =
      commit_messages ((json resp ! i)\<lparr>detailed_diff := Some files\<rparr>)"
    if "filter has_patch files = []" for files
    using that assms(7) by (simp add: commit_messages_def diff_text_def diff_summary_patched)
  show ?thesis
    using get_commits_answered [OF assms(1,2,3)] same none assms(7) unpatched
    by (simp add: summarize_commit_def Let_def)
qed

theorem failed_detail_keeps_commit_witness:
  "\<exists>t commits.
     get_commits_between_tags example_world ''o/r'' (Some ''v1.0-production'')
       (Some ''v2.0-production'') = (t, Inr commits)
     \<and> length commits = 2
     \<and> commits ! 1 = example_commits ! 1
     \<and> diff_text (commits ! 1) = ''No detailed changes available''"
proof -
  let ?resp = "\<lparr>status_code = 200, json = example_commits\<rparr>"
  let ?r = "\<lparr>status_code = 404, json = None :: file_change list option\<rparr>"
  have h1: "get_compare example_world
      (compare_url ''o/r'' (Some ''v1.0-production'') (Some ''v2.0-production'')) = Inr ?resp"
    by (simp add: example_world_def)
  have h2: "status_code ?resp = 200" by simp
  have h3: "\<forall>c \<in> set (json ?resp). \<exists>r. get_commit example_world (commit_url ''o/r'' c) = Inr r"
    by (simp add: example_world_def)
  have h4: "1 < length (json ?resp)" by (simp add: example_commits_def)
  have h5: "get_commit example_world (commit_url ''o/r'' (json ?resp ! 1)) = Inr ?r"
    by (simp add: example_world_def example_commits_def commit_url_def)
  have h6: "status_code ?r \<noteq> 200" by simp
  have h7: "detailed_diff (json ?resp ! 1) = None" by (simp add: example_commits_def)
  from failed_detail_keeps_commit [OF h1 h2 h3 h4 h5 h6 h7]
  obtain t commits where
    "get_commits_between_tags example_world ''o/r'' (Some ''v1.0-production'')
       (Some ''v2.0-production'') = (t, Inr commits)"
    "length commits = length (json ?resp)" "commits ! 1 = json ?resp ! 1"
    "diff_text (commits ! 1) = ''No detailed changes available''"
    by blast
  then show ?thesis by (auto simp: example_commits_def)
qed

subsection \<open>A range without commits\<close>

lemma str_nat_0: "str_nat 0 = ''0''"
  by code_simp

text \<open>
  C6. When the range between the two tags has no commits,
  \<open>generate_release_changelog\<close> announces zero commits, summarises none, and still makes
  the consolidating completion request; its user message is the empty string, and the
  result is whatever that request gives.
\<close>

theorem empty_range_still_consolidates:
  assumes "get_commits_between_tags w repository previous_tag (tag_name current_release)
             = (t, Inr [])"
  shows "generate_release_changelog w repository current_release previous_tag =
           (t @ [Print (nl @ ''Analyzing 0 commits...''), Complete (changelog_messages [])],
            get_completion w (changelog_messages []))
         \<and> map content (changelog_messages []) = [changelog_system_prompt, []]"
  by (simp add: generate_release_changelog_def assms bind_def emit_def ret_def str_nat_0
        changelog_messages_def Let_def)

theorem empty_range_still_consolidates_witness:
  "generate_release_changelog example_world ''o/r'' (example_releases ! 1) (Some ''v0.9'') =
     ([Get (compare_url ''o/r'' (Some ''v0.9'') (Some ''v1.0-production'')) [],
       Print (nl @ ''Analyzing 0 commits...''), Complete (changelog_messages [])],
      Inr ''Summary'')"
proof -
  have "get_commits_between_tags example_world ''o/r'' (Some ''v0.9'')
          (tag_name (example_releases ! 1)) =
        ([Get (compare_url ''o/r'' (Some ''v0.9'') (Some ''v1.0-production'')) []], Inr [])"
    by (simp add: get_commits_between_tags_def example_world_def example_releases_def
          compare_url_def bind_def emit_def ret_def)
  from empty_range_still_consolidates [OF this] show ?thesis
    by (simp add: example_world_def)
qed

subsection \<open>The single-release mode\<close>

lemma bind_prefix: "prefix (fst m) (fst (bind m f))"
  by (cases m) (auto simp: bind_def split: sum.splits prod.splits)

lemma get_commits_head:
  "\<exists>t. fst (get_commits_between_tags w repository base_tag head_tag) =
         Get (compare_url repository base_tag head_tag) [] # t"
  by (auto simp: get_commits_between_tags_def Let_def bind_def emit_def
        split: sum.splits prod.splits)

lemma generate_head:
  "\<exists>t. fst (generate_release_changelog w repository cur prev) =
         Get (compare_url repository prev (tag_name cur)) [] # t"
proof -
  obtain t where t: "fst (get_commits_between_tags w repository prev (tag_name cur)) =
         Get (compare_url repository prev (tag_name cur)) [] # t"
    using get_commits_head by blast
  have "prefix (fst (get_commits_between_tags w repository prev (tag_name cur)))
          (fst (generate_release_changelog w repository cur prev))"
    unfolding generate_release_changelog_def by (rule bind_prefix)
  with t show ?thesis by (auto simp: prefix_def)
qed

lemma bind_emit: "bind (emit evs) f = (evs @ fst (f ()), snd (f ()))"
  by (simp add: bind_def emit_def split: prod.splits)

text \<open>
  C1. In the single-release mode, for the selection of the release at index \<open>i\<close> of the
  filtered list: when there is an element at index \<open>i + 1\<close> (with a non-empty tag), the
  changelog is generated against the tag of that element, and the first request compares
  that tag with the tag of the selected release; otherwise the run of the loop body
  consists of two printed lines, the second saying that this is the oldest release, and
  nothing is written.
\<close>

theorem single_release_previous_tag:
  assumes "int_of_str w selection = Some (int i + 1)" and "i < length rs"
  shows "(if Suc i < length rs \<and> truthy (tag_name (rs ! Suc i))
          then prefix (Print (nl @ ''Processing release: '' @ fmt (tag_name (rs ! i)))
                       # fst (generate_release_changelog w repository (rs ! i)
                                (tag_name (rs ! Suc i))))
                 (fst (single_body w repository rs selection))
               \<and> (\<exists>t. fst (generate_release_changelog w repository (rs ! i)
                             (tag_name (rs ! Suc i))) =
                        Get (compare_url repository (tag_name (rs ! Suc i)) (tag_name (rs ! i))) []
                        # t)
          else single_body w repository rs selection =
                 ([Print (nl @ ''Processing release: '' @ fmt (tag_name (rs ! i))),
                   Print ''This is the oldest release, no previous release to compare with.''],
                  Inr ()))"
proof -
  let ?line = "Print (nl @ ''Processing release: '' @ fmt (tag_name (rs ! i)))"
  let ?gen = "generate_release_changelog w repository (rs ! i) (tag_name (rs ! Suc i))"
  have idx: "nat (int i + 1 - 1) = i" "nat (int i + 1) = Suc i" by simp_all
  have parsed: "parse_int w selection = ([], Inr (int i + 1))"
    by (simp add: parse_int_def assms(1) ret_def)
  show ?thesis
  proof (cases "Suc i < length rs \<and> truthy (tag_name (rs ! Suc i))")
    case True
    let ?k = "\<lambda>changelog.
         bind (emit [Print (nl @ ''Changelog:''), Print changelog, MakeDirs ''changelogs'']) (\<lambda>_.
         bind (sanitize_tag (tag_name (rs ! i))) (\<lambda>safe_filename.
         let filepath = ''changelogs/'' @ ''changelog_'' @ safe_filename @ ''.md'' in
         emit [OpenW filepath,
               Write filepath (''# Changelog for '' @ fmt (tag_name (rs ! i)) @ nl @ nl),
               Write filepath (''Release Date: '' @ fmt (published_at (rs ! i)) @ nl @ nl),
               Write filepath changelog,
               Print (nl @ ''Changelog saved to: '' @ filepath)]))"
    from True have "single_body w repository rs selection =
        bind (emit [?line]) (\<lambda>_. bind ?gen ?k)"
      unfolding single_body_def parsed using assms(2)
      by (simp add: bind_def [of "([], Inr (int i + 1))"] Let_def idx)
    then obtain k where "single_body w repository rs selection =
        bind (emit [?line]) (\<lambda>_. bind ?gen k)" ..
    then have "fst (single_body w repository rs selection) = ?line # fst (bind ?gen k)"
      by (simp add: bind_emit)
    moreover have "prefix (fst ?gen) (fst (bind ?gen k))" by (rule bind_prefix)
    ultimately have "prefix (?line # fst ?gen) (fst (single_body w repository rs selection))"
      by simp
    with True generate_head [of w repository "rs ! i" "tag_name (rs ! Suc i)"]
    show ?thesis by (simp only: if_True simp_thms)
  next
    case False
    then have "single_body w repository rs selection =
        bind (emit [?line])
          (\<lambda>_. emit [Print ''This is the oldest release, no previous release to compare with.''])"
      unfolding single_body_def parsed using assms(2)
      by (auto simp add: bind_def [of "([], Inr (int i + 1))"] Let_def idx)
    then have "single_body w repository rs selection =
        ([?line, Print ''This is the oldest release, no previous release to compare with.''],
         Inr ())"
      by (simp add: bind_emit) (simp add: emit_def)
    with False show ?thesis by (simp only: if_False)
  qed
qed

theorem single_release_previous_tag_witness:
  "single_body example_world ''o/r'' example_releases ''2'' =
     ([Print (nl @ ''Processing release: v1.0-production''),
       Print ''This is the oldest release, no previous release to compare with.''], Inr ())
   \<and> (\<exists>t. fst (single_body example_world ''o/r'' example_releases ''1'') =
        Print (nl @ ''Processing release: v2.0-production'')
        # Get (compare_url ''o/r'' (Some ''v1.0-production'') (Some ''v2.0-production'')) []
        # t)"
proof -
  have s2: "int_of_str example_world ''2'' = Some (int 1 + 1)" by (simp add: example_world_def)
  have s1: "int_of_str example_world ''1'' = Some (int 0 + 1)" by (simp add: example_world_def)
  have l2: "1 < length example_releases" and l1: "0 < length example_releases"
    by (simp_all add: example_releases_def)
  from single_release_previous_tag [OF s2 l2, of "''o/r''"]
  have last: "single_body example_world ''o/r'' example_releases ''2'' =
     ([Print (nl @ ''Processing release: v1.0-production''),
       Print ''This is the oldest release, no previous release to compare with.''], Inr ())"
    by (simp add: example_releases_def)
  from single_release_previous_tag [OF s1 l1, of "''o/r''"]
  have "\<exists>t. fst (single_body example_world ''o/r'' example_releases ''1'') =
        Print (nl @ ''Processing release: v2.0-production'')
        # Get (compare_url ''o/r'' (Some ''v1.0-production'') (Some ''v2.0-production'')) []
        # t"
    by (auto simp add: example_releases_def prefix_def)
  with last show ?thesis by simp
qed

subsection \<open>The comparison mode\<close>

text \<open>
  C2. In the comparison mode, for two selections inside the list of which the first is not
  strictly before the second, the loop body only prints the error: no request is made and
  no file is opened. The loop then goes on with the remaining input exactly as it would
  have from the start.
\<close>

theorem compare_rejects_unordered:
  assumes "lower newer_release \<noteq> ''q''"
      and "int_of_str w newer_release = Some (int a + 1)"
      and "int_of_str w older_release = Some (int b + 1)"
      and "a < length rs" and "b < length rs" and "b \<le> a"
  shows "compare_body w repository rs newer_release older_release =
           ([Print ''Error: First release must be newer than second release.''], Inr ())
         \<and> compare_loop w repository rs (newer_release # older_release # inputs) =
           ([Print (nl @ ''Select two releases to compare:''), Prompt newer_prompt,
             Prompt older_prompt,
             Print ''Error: First release must be newer than second release.'']
            @ fst (compare_loop w repository rs inputs),
            snd (compare_loop w repository rs inputs))"
proof -
  have body: "compare_body w repository rs newer_release older_release =
           ([Print ''Error: First release must be newer than second release.''], Inr ())"
    using assms unfolding compare_body_def parse_int_def
    by (simp add: bind_def ret_def emit_def Let_def)
  show ?thesis
    using assms(1) by (simp add: body split: prod.splits)
qed

theorem compare_rejects_unordered_witness:
  "compare_loop example_world ''o/r'' example_releases [''1'', ''1'', ''q''] =
     ([Print (nl @ ''Select two releases to compare:''), Prompt newer_prompt, Prompt older_prompt,
       Print ''Error: First release must be newer than second release.'',
       Print (nl @ ''Select two releases to compare:''), Prompt newer_prompt], Quit)
   \<and> compare_loop example_world ''o/r'' example_releases [''2'', ''1'', ''q''] =
     compare_loop example_world ''o/r'' example_releases [''1'', ''1'', ''q'']
   \<and> fst (compare_body example_world ''o/r'' example_releases ''1'' ''2'') \<noteq>
     [Print ''Error: First release must be newer than second release.'']"
proof -
  have q: "lower ''1'' \<noteq> ''q''" "lower ''2'' \<noteq> ''q''" "lower ''q'' = ''q''"
    by (simp_all add: lower_def lower_char_def)
  have s1: "int_of_str example_world ''1'' = Some (int 0 + 1)" by (simp add: example_world_def)
  have s2: "int_of_str example_world ''2'' = Some (int 1 + 1)" by (simp add: example_world_def)
  have l0: "0 < length example_releases" and l1: "1 < length example_releases"
    by (simp_all add: example_releases_def)
  have quit: "compare_loop example_world ''o/r'' example_releases [''q''] =
     ([Print (nl @ ''Select two releases to compare:''), Prompt newer_prompt], Quit)"
    by (simp add: q)
  from compare_rejects_unordered [OF q(1) s1 s1 l0 l0, of "''o/r''" "[''q'']"]
  have eq: "compare_loop example_world ''o/r'' example_releases [''1'', ''1'', ''q''] =
     ([Print (nl @ ''Select two releases to compare:''), Prompt newer_prompt, Prompt older_prompt,
       Print ''Error: First release must be newer than second release.'',
       Print (nl @ ''Select two releases to compare:''), Prompt newer_prompt], Quit)"
    by (simp add: q)
  from compare_rejects_unordered [OF q(2) s2 s1 l1 l0, of "''o/r''" "[''q'']"]
  have rej: "compare_loop example_world ''o/r'' example_releases [''2'', ''1'', ''q''] =
     ([Print (nl @ ''Select two releases to compare:''), Prompt newer_prompt, Prompt older_prompt,
       Print ''Error: First release must be newer than second release.'',
       Print (nl @ ''Select two releases to compare:''), Prompt newer_prompt], Quit)"
    by (simp add: q)
  have body: "fst (compare_body example_world ''o/r'' example_releases ''1'' ''2'') ! 0
      = Print (nl @ ''Comparing changes between:'')"
    by (simp add: compare_body_def parse_int_def example_world_def example_releases_def
          bind_def ret_def emit_def Let_def split: prod.splits sum.splits)
  then have "fst (compare_body example_world ''o/r'' example_releases ''1'' ''2'') \<noteq>
     [Print ''Error: First release must be newer than second release.'']"
    by auto
  with eq rej show ?thesis by (simp only: simp_thms)
qed

end
